theory Spec2Isabelle
  imports Complex_Main
begin

text \<open>
  A model of \<open>src/utils/utils.js\<close>: the signature cache, the conversion of chat turns into
  backend turns, the JSON-Schema sanitizer and the generation config, each function under
  the name it has in the source, followed by the properties proved of them.
\<close>

section \<open>Strings\<close>

text \<open>
  A JavaScript string is modelled as a \<^typ>\<open>string\<close>: a list of code units below 256.
  \<open>String.prototype.trim\<close> removes white space and line terminators at both ends; below 256
  these are TAB, LF, VT, FF, CR, SPACE and NBSP.
\<close>

definition is_ws :: "char \<Rightarrow> bool" where
  "is_ws c = (c \<in> set [CHR 0x09, CHR 0x0A, CHR 0x0B, CHR 0x0C, CHR 0x0D, CHR '' '', CHR 0xA0])"

definition trim :: "string \<Rightarrow> string" where
  "trim s = rev (dropWhile is_ws (rev (dropWhile is_ws s)))"

fun starts_with :: "string \<Rightarrow> string \<Rightarrow> bool" where
  "starts_with s [] = True"
| "starts_with [] (p # ps) = False"
| "starts_with (c # cs) (p # ps) = (c = p \<and> starts_with cs ps)"

text \<open>\<open>s.includes(sub)\<close>: \<open>sub\<close> occurs in \<open>s\<close> as a contiguous substring.\<close>

fun includes_str :: "string \<Rightarrow> string \<Rightarrow> bool" where
  "includes_str [] sub = (sub = [])"
| "includes_str (c # cs) sub = (starts_with (c # cs) sub \<or> includes_str cs sub)"

section \<open>Signature cache\<close>

text \<open>
  The two module-level maps. A text entry is the payload \<open>{signature, text}\<close>.
\<close>

record signature_entry =
  entry_signature :: string
  entry_text :: string

record signature_cache =
  thoughtSignatureMap :: "string \<rightharpoonup> string"
  textThoughtSignatureMap :: "string \<rightharpoonup> signature_entry"

definition registerThoughtSignature :: "signature_cache \<Rightarrow> string \<Rightarrow> string \<Rightarrow> signature_cache" where
  "registerThoughtSignature cache ident thoughtSignature =
    (if ident = [] \<or> thoughtSignature = [] then cache
     else cache\<lparr>thoughtSignatureMap := (thoughtSignatureMap cache)(ident \<mapsto> thoughtSignature)\<rparr>)"

definition getThoughtSignature :: "signature_cache \<Rightarrow> string \<Rightarrow> string option" where
  "getThoughtSignature cache ident =
    (if ident = [] then None else thoughtSignatureMap cache ident)"

subsection \<open>Text normalization\<close>

text \<open>
  \<open>after_first pat s\<close> is what follows the first occurrence of \<open>pat\<close> in \<open>s\<close>.
\<close>

fun after_first :: "string \<Rightarrow> string \<Rightarrow> string option" where
  "after_first pat [] = (if pat = [] then Some [] else None)"
| "after_first pat (c # cs) =
    (if starts_with (c # cs) pat then Some (drop (length pat) (c # cs))
     else after_first pat cs)"

lemma after_first_length: "after_first pat s = Some r \<Longrightarrow> length r \<le> length s"
  by (induction s) (auto split: if_splits)

text \<open>
  \<open>.replace(/<think>[\s\S]*?<\/think>/g, '')\<close>: scanning from the left, an opening tag
  together with everything up to the nearest closing tag is removed; an opening tag with no
  closing tag after it stays.
\<close>

function strip_think :: "string \<Rightarrow> string" where
  "strip_think [] = []"
| "strip_think (c # cs) =
    (if starts_with (c # cs) ''<think>'' then
       (case after_first ''</think>'' (drop 7 (c # cs)) of
          Some rest \<Rightarrow> strip_think rest
        | None \<Rightarrow> c # strip_think cs)
     else c # strip_think cs)"
  by pat_completeness auto
termination
proof (relation "measure length")
  fix c :: char and cs rest
  assume "after_first ''</think>'' (drop 7 (c # cs)) = Some rest"
  then have "length rest \<le> length (drop 7 (c # cs))"
    by (rule after_first_length)
  then show "(rest, c # cs) \<in> measure length"
    by simp
qed simp_all

text \<open>
  One match of \<open>/!\[[^\]]*]\([^)]+\)/\<close> at the head of \<open>s\<close>: the rest after it. Both
  character classes exclude the character that must follow them, so the greedy match is the
  only one.
\<close>

definition match_image :: "string \<Rightarrow> string option" where
  "match_image s =
    (if starts_with s ''!['' then
       (let r1 = dropWhile (\<lambda>c. c \<noteq> CHR 0x5D) (drop 2 s) in
        if starts_with r1 ''](''  then
          (let url = takeWhile (\<lambda>c. c \<noteq> CHR 0x29) (drop 2 r1);
               r2 = dropWhile (\<lambda>c. c \<noteq> CHR 0x29) (drop 2 r1)
           in if url \<noteq> [] \<and> starts_with r2 '')'' then Some (drop 1 r2) else None)
        else None)
     else None)"

lemma match_image_length: "match_image s = Some r \<Longrightarrow> length r < length s"
proof -
  assume m: "match_image s = Some r"
  define r1 where "r1 = dropWhile (\<lambda>c. c \<noteq> CHR 0x5D) (drop 2 s)"
  define r2 where "r2 = dropWhile (\<lambda>c. c \<noteq> CHR 0x29) (drop 2 r1)"
  from m have s: "starts_with s ''!['' " and r: "r = drop 1 r2"
    by (auto simp: match_image_def Let_def r1_def r2_def split: if_splits)
  have "length r2 \<le> length (drop 2 r1)"
    unfolding r2_def by (rule length_dropWhile_le)
  moreover have "length r1 \<le> length (drop 2 s)"
    unfolding r1_def by (rule length_dropWhile_le)
  moreover from s have "length s \<ge> 2"
    by (cases s; cases "tl s") auto
  ultimately show ?thesis using r by simp
qed

function strip_images :: "string \<Rightarrow> string" where
  "strip_images [] = []"
| "strip_images (c # cs) =
    (case match_image (c # cs) of
       Some rest \<Rightarrow> strip_images rest
     | None \<Rightarrow> c # strip_images cs)"
  by pat_completeness auto
termination
  by (relation "measure length") (auto dest: match_image_length)

text \<open>\<open>.replace(/\r\n/g, '\n')\<close>\<close>

fun crlf_to_lf :: "string \<Rightarrow> string" where
  "crlf_to_lf (c1 # c2 # cs) =
    (if c1 = CHR 0x0D \<and> c2 = CHR 0x0A then CHR 0x0A # crlf_to_lf cs
     else c1 # crlf_to_lf (c2 # cs))"
| "crlf_to_lf cs = cs"

definition normalizeTextForSignature :: "string \<Rightarrow> string" where
  "normalizeTextForSignature t = trim (crlf_to_lf (strip_images (strip_think t)))"

subsection \<open>Text signatures\<close>

definition registerTextThoughtSignature ::
  "signature_cache \<Rightarrow> string \<Rightarrow> string \<Rightarrow> signature_cache" where
  "registerTextThoughtSignature cache t thoughtSignature =
    (if t = [] \<or> thoughtSignature = [] then cache
     else
       (let originalText = t;
            trimmed = trim originalText;
            normalized = normalizeTextForSignature trimmed;
            payload = \<lparr>entry_signature = thoughtSignature, entry_text = originalText\<rparr>;
            m0 = textThoughtSignatureMap cache;
            m1 = (if originalText \<noteq> [] then m0(originalText \<mapsto> payload) else m0);
            m2 = (if normalized \<noteq> [] then m1(normalized \<mapsto> payload) else m1);
            m3 = (if trimmed \<noteq> [] \<and> trimmed \<noteq> normalized then m2(trimmed \<mapsto> payload) else m2)
        in cache\<lparr>textThoughtSignatureMap := m3\<rparr>))"

definition getTextThoughtSignature :: "signature_cache \<Rightarrow> string \<Rightarrow> signature_entry option" where
  "getTextThoughtSignature cache t =
    (if trim t = [] then None
     else if textThoughtSignatureMap cache t \<noteq> None then textThoughtSignatureMap cache t
     else
       (let trimmed = trim t in
        if textThoughtSignatureMap cache trimmed \<noteq> None
        then textThoughtSignatureMap cache trimmed
        else
          (let normalized = normalizeTextForSignature trimmed in
           if normalized = [] then None
           else textThoughtSignatureMap cache normalized)))"

section \<open>Message converter\<close>

subsection \<open>Chat turns and backend turns\<close>

text \<open>
  The content of a chat turn: \<open>null\<close>/\<open>undefined\<close>, a string, an array of typed items, or some
  other object (of which only a string-valued \<open>text\<close> field is read). An item carries
  \<open>item.type\<close>, \<open>item.text\<close> and \<open>item.image_url?.url\<close>; an absent field is \<open>None\<close>.
\<close>

record content_item =
  item_type :: string
  item_text :: "string option"
  image_url :: "string option"

datatype content =
    NoContent
  | StringContent string
  | ArrayContent "content_item list"
  | ObjectContent "string option"

text \<open>
  \<open>toolCall.function.arguments\<close>: a string (to be parsed), an already structured value, or
  neither. Structured values are opaque (\<^typ>\<open>'j\<close>).
\<close>

datatype 'j arguments = ArgsString string | ArgsObject 'j | ArgsOther

record 'j tool_call =
  call_id :: string
  function_name :: string
  function_arguments :: "'j arguments"

text \<open>A missing \<open>tool_calls\<close> list is the empty list; a missing \<open>tool_call_id\<close> is \<open>None\<close>.\<close>

record 'j message =
  role :: string
  content :: content
  tool_calls :: "'j tool_call list"
  tool_call_id :: "string option"

datatype 'j part =
    TextPart string "string option"
  | InlineData string string
  | FunctionCall string string 'j "string option"
  | FunctionResponse "string option" string "string option"

record 'j turn =
  turn_role :: string
  parts :: "'j part list"

text \<open>
  What the converter uses of the JavaScript runtime: \<open>JSON.parse\<close> (\<open>None\<close> when it throws),
  \<open>JSON.stringify\<close>, and the empty object \<open>{}\<close>.
\<close>

record 'j runtime =
  JSON_parse :: "string \<Rightarrow> 'j option"
  JSON_stringify :: "content \<Rightarrow> string"
  empty_object :: 'j

subsection \<open>User turns\<close>

definition is_word_char :: "char \<Rightarrow> bool" where
  "is_word_char c =
    (let n = (of_char c :: nat) in
     (48 \<le> n \<and> n \<le> 57) \<or> (65 \<le> n \<and> n \<le> 90) \<or> n = 95 \<or> (97 \<le> n \<and> n \<le> 122))"

text \<open>
  \<open>imageUrl.match(/^data:image\/(\w+);base64,(.+)$/)\<close>: the format and the payload. The dot
  matches no line terminator.
\<close>

definition match_data_url :: "string \<Rightarrow> (string \<times> string) option" where
  "match_data_url url =
    (if starts_with url ''data:image/'' then
       (let r = drop 11 url;
            fmt = takeWhile is_word_char r;
            r2 = dropWhile is_word_char r
        in if fmt \<noteq> [] \<and> starts_with r2 '';base64,'' then
             (let d = drop 8 r2 in
              if d \<noteq> [] \<and> list_all (\<lambda>c. c \<noteq> CHR 0x0A \<and> c \<noteq> CHR 0x0D) d
              then Some (fmt, d) else None)
           else None)
     else None)"

fun extract_items :: "content_item list \<Rightarrow> string \<times> 'j part list \<Rightarrow> string \<times> 'j part list" where
  "extract_items [] result = result"
| "extract_items (item # items) (txt, images) =
    (if item_type item = ''text'' then
       extract_items items
         (txt @ (case item_text item of Some t \<Rightarrow> t | None \<Rightarrow> ''undefined''), images)
     else if item_type item = ''image_url'' then
       (let imageUrl = (case image_url item of Some u \<Rightarrow> u | None \<Rightarrow> []) in
        case match_data_url imageUrl of
          Some (fmt, base64Data) \<Rightarrow>
            extract_items items (txt, images @ [InlineData (''image/'' @ fmt) base64Data])
        | None \<Rightarrow> extract_items items (txt, images))
     else extract_items items (txt, images))"

definition extractImagesFromContent :: "content \<Rightarrow> string \<times> 'j part list" where
  "extractImagesFromContent c =
    (case c of
       StringContent s \<Rightarrow> (s, [])
     | ArrayContent items \<Rightarrow> extract_items items ([], [])
     | _ \<Rightarrow> ([], []))"

definition handleUserMessage :: "string \<times> 'j part list \<Rightarrow> 'j turn list \<Rightarrow> 'j turn list" where
  "handleUserMessage extracted antigravityMessages =
    antigravityMessages @
      [\<lparr>turn_role = ''user'', parts = TextPart (fst extracted) None # snd extracted\<rparr>]"

subsection \<open>Tool turns\<close>

text \<open>
  The name lookup of \<open>handleToolCall\<close>. The inner loop stops at the first function-call part
  with the id; the outer loop runs from the last turn backwards and stops once the name is
  non-empty.
\<close>

fun find_in_parts :: "string option \<Rightarrow> 'j part list \<Rightarrow> string option" where
  "find_in_parts ident [] = None"
| "find_in_parts ident (FunctionCall i n a sg # ps) =
    (if Some i = ident then Some n else find_in_parts ident ps)"
| "find_in_parts ident (p # ps) = find_in_parts ident ps"

fun find_functionName :: "string option \<Rightarrow> 'j turn list \<Rightarrow> string \<Rightarrow> string" where
  "find_functionName ident [] functionName = functionName"
| "find_functionName ident (t # ts) functionName =
    (if turn_role t = ''model'' then
       (let functionName' =
              (case find_in_parts ident (parts t) of Some n \<Rightarrow> n | None \<Rightarrow> functionName)
        in if functionName' \<noteq> [] then functionName'
           else find_functionName ident ts functionName')
     else find_functionName ident ts functionName)"

text \<open>
  \<open>output\<close>: an object (an array is one) gives its \<open>text\<close> when that is truthy, else its
  serialization; anything else passes as it is.
\<close>

definition tool_output :: "'j runtime \<Rightarrow> content \<Rightarrow> string option" where
  "tool_output rt c =
    (case c of
       NoContent \<Rightarrow> None
     | StringContent s \<Rightarrow> Some s
     | ArrayContent items \<Rightarrow> Some (JSON_stringify rt c)
     | ObjectContent t \<Rightarrow>
         (case t of
            Some s \<Rightarrow> if s \<noteq> [] then Some s else Some (JSON_stringify rt c)
          | None \<Rightarrow> Some (JSON_stringify rt c)))"

fun is_functionResponse :: "'j part \<Rightarrow> bool" where
  "is_functionResponse (FunctionResponse i n out) = True"
| "is_functionResponse p = False"

definition handleToolCall :: "'j runtime \<Rightarrow> 'j message \<Rightarrow> 'j turn list \<Rightarrow> 'j turn list" where
  "handleToolCall rt message antigravityMessages =
    (let functionName = find_functionName (tool_call_id message) (rev antigravityMessages) [];
         output = tool_output rt (content message);
         functionResponse = FunctionResponse (tool_call_id message) functionName output
     in if antigravityMessages \<noteq> []
           \<and> turn_role (last antigravityMessages) = ''user''
           \<and> list_ex is_functionResponse (parts (last antigravityMessages))
        then butlast antigravityMessages @
               [(last antigravityMessages)
                  \<lparr>parts := parts (last antigravityMessages) @ [functionResponse]\<rparr>]
        else antigravityMessages @ [\<lparr>turn_role = ''user'', parts = [functionResponse]\<rparr>])"

subsection \<open>Assistant turns\<close>

definition contentText_of :: "content \<Rightarrow> string" where
  "contentText_of c =
    (case c of
       ArrayContent items \<Rightarrow>
         concat (map (\<lambda>item. case item_text item of Some t \<Rightarrow> t | None \<Rightarrow> [])
                     (filter (\<lambda>item. item_type item = ''text'') items))
     | StringContent s \<Rightarrow> s
     | _ \<Rightarrow> [])"

text \<open>One \<open>tool_calls\<close> entry as a function-call part, with the signature cached for its id.\<close>

definition functionCall_part :: "'j runtime \<Rightarrow> signature_cache \<Rightarrow> 'j tool_call \<Rightarrow> 'j part" where
  "functionCall_part rt cache toolCall =
    (let args =
           (case function_arguments toolCall of
              ArgsString s \<Rightarrow> (case JSON_parse rt s of Some v \<Rightarrow> v | None \<Rightarrow> empty_object rt)
            | ArgsObject v \<Rightarrow> v
            | ArgsOther \<Rightarrow> empty_object rt);
         thoughtSignature = getThoughtSignature cache (call_id toolCall)
     in FunctionCall (call_id toolCall) (function_name toolCall) args
          (case thoughtSignature of
             Some sg \<Rightarrow> if sg \<noteq> [] then Some sg else None
           | None \<Rightarrow> None))"

text \<open>The text part of a new model turn.\<close>

definition text_part :: "signature_cache \<Rightarrow> bool \<Rightarrow> string \<Rightarrow> 'j part" where
  "text_part cache allowThoughtSignature contentText =
    (let textThoughtSignature =
           (if allowThoughtSignature then getTextThoughtSignature cache contentText else None)
     in TextPart
          (case textThoughtSignature of Some e \<Rightarrow> entry_text e | None \<Rightarrow> contentText)
          (case textThoughtSignature of
             Some e \<Rightarrow>
               if allowThoughtSignature \<and> entry_signature e \<noteq> []
               then Some (entry_signature e) else None
           | None \<Rightarrow> None))"

definition handleAssistantMessage ::
  "'j runtime \<Rightarrow> signature_cache \<Rightarrow> 'j message \<Rightarrow> 'j turn list \<Rightarrow> string \<Rightarrow> 'j turn list" where
  "handleAssistantMessage rt cache message antigravityMessages modelName =
    (let hasToolCalls = (tool_calls message \<noteq> []);
         allowThoughtSignature = includes_str modelName ''gemini-3'';
         contentText = contentText_of (content message);
         hasContent = (trim contentText \<noteq> []);
         antigravityTools = map (functionCall_part rt cache) (tool_calls message)
     in if antigravityMessages \<noteq> []
           \<and> turn_role (last antigravityMessages) = ''model''
           \<and> hasToolCalls \<and> \<not> hasContent
        then butlast antigravityMessages @
               [(last antigravityMessages)
                  \<lparr>parts := parts (last antigravityMessages) @ antigravityTools\<rparr>]
        else antigravityMessages @
               [\<lparr>turn_role = ''model'',
                 parts = (if hasContent
                          then [text_part cache allowThoughtSignature contentText]
                          else []) @ antigravityTools\<rparr>])"

subsection \<open>The fold\<close>

definition convert_message ::
  "'j runtime \<Rightarrow> signature_cache \<Rightarrow> string \<Rightarrow> 'j turn list \<Rightarrow> 'j message \<Rightarrow> 'j turn list" where
  "convert_message rt cache modelName antigravityMessages message =
    (if role message = ''user'' then
       handleUserMessage (extractImagesFromContent (content message)) antigravityMessages
     else if role message = ''assistant'' then
       handleAssistantMessage rt cache message antigravityMessages modelName
     else if role message = ''tool'' then
       handleToolCall rt message antigravityMessages
     else antigravityMessages)"

definition openaiMessageToAntigravity ::
  "'j runtime \<Rightarrow> signature_cache \<Rightarrow> 'j message list \<Rightarrow> string \<Rightarrow> 'j turn list" where
  "openaiMessageToAntigravity rt cache openaiMessages modelName =
    foldl (convert_message rt cache modelName) [] openaiMessages"

section \<open>Schema sanitizer\<close>

subsection \<open>Values\<close>

text \<open>
  The sanitizer tells objects apart by identity (the \<open>visited\<close> set), and its input may be
  cyclic, so input objects live in a store: a value is a primitive or a reference, and the
  store maps every address to an array or to a plain object. A plain object is the list of its
  own entries in the order of \<open>Object.entries\<close>; its keys are distinct. Numbers are the finite
  ones, \<open>NaN\<close> and the two infinities.
\<close>

datatype jval =
    Undefined
  | Null
  | Bool bool
  | Num rat
  | NaN
  | Infinity bool
  | Str string
  | Ref nat

datatype hobj = HArr "jval list" | HObj "(string \<times> jval) list"

type_synonym heap = "nat \<Rightarrow> hobj"

text \<open>
  What the sanitizer builds is a tree of fresh arrays and objects; an input value that is
  passed on as it is (a primitive, or an input object by reference) is a leaf. \<open>Host\<close> leaves
  are the two objects that a lookup in the object literal \<open>typeMap\<close> can find on its prototype
  chain. A fresh object is the list of its entries in insertion order (JavaScript enumerates
  integer-like keys first; the sanitizer reads fresh objects by key, and the order of a copy
  is all that changes with it).
\<close>

datatype host = ObjectConstructor | ObjectPrototype

datatype oval =
    Val jval
  | Host host
  | Arr "oval list"
  | Obj "(string \<times> oval) list"

datatype error = TypeError

text \<open>
  A run returns a value, throws, or needs a deeper recursion than the fuel allows.
\<close>

datatype 'a outcome = Ok 'a | Throws error | OutOfFuel

fun obind :: "'a outcome \<Rightarrow> ('a \<Rightarrow> 'b outcome) \<Rightarrow> 'b outcome" where
  "obind (Ok x) f = f x"
| "obind (Throws e) f = Throws e"
| "obind OutOfFuel f = OutOfFuel"

subsection \<open>JavaScript primitives\<close>

fun truthy :: "jval \<Rightarrow> bool" where
  "truthy Undefined = False"
| "truthy Null = False"
| "truthy (Bool b) = b"
| "truthy (Num r) = (r \<noteq> 0)"
| "truthy NaN = False"
| "truthy (Infinity s) = True"
| "truthy (Str s) = (s \<noteq> [])"
| "truthy (Ref a) = True"

fun truthy_o :: "oval \<Rightarrow> bool" where
  "truthy_o (Val v) = truthy v"
| "truthy_o x = True"

text \<open>\<open>typeof v === 'object'\<close>\<close>

fun typeof_object :: "jval \<Rightarrow> bool" where
  "typeof_object Null = True"
| "typeof_object (Ref a) = True"
| "typeof_object v = False"

fun isArray :: "heap \<Rightarrow> jval \<Rightarrow> bool" where
  "isArray h (Ref a) = (case h a of HArr items \<Rightarrow> True | HObj entries \<Rightarrow> False)"
| "isArray h v = False"

fun array_items :: "heap \<Rightarrow> jval \<Rightarrow> jval list" where
  "array_items h (Ref a) = (case h a of HArr items \<Rightarrow> items | HObj entries \<Rightarrow> [])"
| "array_items h v = []"

text \<open>\<open>obj[key]\<close> on a plain input object, and on what the sanitizer built.\<close>

definition get_prop :: "(string \<times> jval) list \<Rightarrow> string \<Rightarrow> jval" where
  "get_prop entries key = (case map_of entries key of Some v \<Rightarrow> v | None \<Rightarrow> Undefined)"

fun get_field :: "oval \<Rightarrow> string \<Rightarrow> oval" where
  "get_field (Obj fs) key = (case map_of fs key of Some v \<Rightarrow> v | None \<Rightarrow> Val Undefined)"
| "get_field x key = Val Undefined"

text \<open>\<open>cleaned[key] = v\<close>: an existing key keeps its place, a new one goes last.\<close>

fun set_field :: "string \<Rightarrow> oval \<Rightarrow> (string \<times> oval) list \<Rightarrow> (string \<times> oval) list" where
  "set_field key v [] = [(key, v)]"
| "set_field key v ((k, w) # fs) =
    (if k = key then (k, v) # fs else (k, w) # set_field key v fs)"

definition delete_field :: "string \<Rightarrow> (string \<times> oval) list \<Rightarrow> (string \<times> oval) list" where
  "delete_field key fs = filter (\<lambda>(k, w). k \<noteq> key) fs"

text \<open>Insertion into a \<open>Set\<close>, kept in insertion order.\<close>

definition set_add :: "'a \<Rightarrow> 'a list \<Rightarrow> 'a list" where
  "set_add x xs = (if x \<in> set xs then xs else xs @ [x])"

text \<open>The decimal numeral of an array index, for \<open>Object.entries\<close> of an array.\<close>

fun decimal :: "nat \<Rightarrow> string" where
  "decimal n =
    (if n < 10 then [char_of (48 + n)]
     else decimal (n div 10) @ [char_of (48 + n mod 10)])"

fun entries_of :: "heap \<Rightarrow> jval \<Rightarrow> (string \<times> jval) list" where
  "entries_of h (Ref a) =
    (case h a of
       HObj entries \<Rightarrow> entries
     | HArr items \<Rightarrow> zip (map decimal [0..<length items]) items)"
| "entries_of h v = []"

text \<open>
  \<open>String(v)\<close>. The conversion of numbers and of objects is left to the runtime: \<open>S\<close>.
\<close>

fun to_String :: "(jval \<Rightarrow> string) \<Rightarrow> jval \<Rightarrow> string" where
  "to_String S (Str s) = s"
| "to_String S Undefined = ''undefined''"
| "to_String S Null = ''null''"
| "to_String S (Bool b) = (if b then ''true'' else ''false'')"
| "to_String S NaN = ''NaN''"
| "to_String S (Infinity neg) = (if neg then ''-Infinity'' else ''Infinity'')"
| "to_String S v = S v"

text \<open>
  \<open>toLowerCase\<close> on the letters A to Z; every key of \<open>typeMap\<close> is ASCII, so no other letter
  decides a lookup.
\<close>

definition to_lower :: "string \<Rightarrow> string" where
  "to_lower s =
    map (\<lambda>c. let n = (of_char c :: nat) in if 65 \<le> n \<and> n \<le> 90 then char_of (n + 32) else c) s"

subsection \<open>The helpers of the sanitizer\<close>

definition SUPPORTED_KEYS :: "string list" where
  "SUPPORTED_KEYS =
    [''type'', ''properties'', ''items'', ''required'', ''description'', ''enum'', ''nullable'',
     ''format'', ''minimum'', ''maximum'', ''minItems'', ''maxItems'']"

definition VALID_TYPES :: "string list" where
  "VALID_TYPES = [''string'', ''number'', ''integer'', ''boolean'', ''array'', ''object'']"

fun isValidEnumValue :: "oval \<Rightarrow> bool" where
  "isValidEnumValue (Val Null) = False"
| "isValidEnumValue (Val Undefined) = False"
| "isValidEnumValue (Val (Str s)) = (trim s \<noteq> [])"
| "isValidEnumValue x = True"

fun inferType :: "heap \<Rightarrow> oval \<Rightarrow> string" where
  "inferType h (Val Null) = ''string''"
| "inferType h (Val (Bool b)) = ''boolean''"
| "inferType h (Val (Num r)) = (if of_int \<lfloor>r\<rfloor> = r then ''integer'' else ''number'')"
| "inferType h (Val NaN) = ''number''"
| "inferType h (Val (Infinity s)) = ''number''"
| "inferType h (Val (Ref a)) = (case h a of HArr items \<Rightarrow> ''array'' | HObj entries \<Rightarrow> ''object'')"
| "inferType h (Arr xs) = ''array''"
| "inferType h (Obj fs) = ''object''"
| "inferType h (Host ObjectPrototype) = ''object''"
| "inferType h x = ''string''"

text \<open>
  \<open>typeMap[type?.toLowerCase()] || 'string'\<close>. A value that is neither a string nor nullish
  has no \<open>toLowerCase\<close>: the call throws. \<open>typeMap\<close> is an object literal, so the keys
  \<open>constructor\<close> and \<open>__proto__\<close> find \<open>Object\<close> and \<open>Object.prototype\<close>.
\<close>

definition typeMap :: "(string \<times> oval) list" where
  "typeMap =
    [(''int'', Val (Str ''integer'')), (''float'', Val (Str ''number'')),
     (''double'', Val (Str ''number'')), (''bool'', Val (Str ''boolean'')),
     (''str'', Val (Str ''string'')), (''list'', Val (Str ''array'')),
     (''dict'', Val (Str ''object'')), (''map'', Val (Str ''object'')),
     (''any'', Val (Str ''string'')), (''null'', Val (Str ''string'')),
     (''constructor'', Host ObjectConstructor), (''__proto__'', Host ObjectPrototype)]"

fun mapUnknownType :: "jval \<Rightarrow> oval outcome" where
  "mapUnknownType (Str s) =
    Ok (case map_of typeMap (to_lower s) of Some t \<Rightarrow> t | None \<Rightarrow> Val (Str ''string''))"
| "mapUnknownType Undefined = Ok (Val (Str ''string''))"
| "mapUnknownType Null = Ok (Val (Str ''string''))"
| "mapUnknownType v = Throws TypeError"

definition circular_marker :: oval where
  "circular_marker =
    Obj [(''type'', Val (Str ''object'')), (''description'', Val (Str ''[Circular Reference]''))]"

subsection \<open>The loops of \<open>cleanObject\<close>\<close>

text \<open>
  \<open>cleanObject\<close> is a closure over the \<open>visited\<close> set, which every call may extend: the set
  is passed in and returned. The loops below take the recursive call as the parameter \<open>rec\<close>.
\<close>

type_synonym cleaner = "nat set \<Rightarrow> jval \<Rightarrow> (oval \<times> nat set) outcome"

text \<open>
  \<open>obj.map(item => (typeof item === 'object' && item !== null ? cleanObject(item) : item))\<close>
\<close>

fun clean_array :: "cleaner \<Rightarrow> jval list \<Rightarrow> nat set \<Rightarrow> (oval list \<times> nat set) outcome" where
  "clean_array rec [] visited = Ok ([], visited)"
| "clean_array rec (item # items) visited =
    (if typeof_object item \<and> item \<noteq> Null then
       obind (rec visited item) (\<lambda>(x, visited').
       obind (clean_array rec items visited') (\<lambda>(xs, visited'').
       Ok (x # xs, visited'')))
     else
       obind (clean_array rec items visited) (\<lambda>(xs, visited').
       Ok (Val item # xs, visited')))"

text \<open>The accumulators of the union branch.\<close>

record union_acc =
  mergedProperties :: "(string \<times> oval) list"
  mergedRequired :: "oval list"
  mergedEnum :: "oval list"
  mergedTypes :: "oval list"
  hasProps :: bool

fun typeof_object_o :: "oval \<Rightarrow> bool" where
  "typeof_object_o (Val v) = typeof_object v"
| "typeof_object_o (Host ObjectConstructor) = False"
| "typeof_object_o x = True"

fun own_entries :: "heap \<Rightarrow> oval \<Rightarrow> (string \<times> oval) list" where
  "own_entries h (Obj fs) = fs"
| "own_entries h (Arr xs) = zip (map decimal [0..<length xs]) xs"
| "own_entries h (Val v) = map (\<lambda>(k, w). (k, Val w)) (entries_of h v)"
| "own_entries h (Host x) = []"

text \<open>\<open>Object.assign(target, src)\<close>\<close>

definition object_assign :: "heap \<Rightarrow> (string \<times> oval) list \<Rightarrow> oval \<Rightarrow> (string \<times> oval) list" where
  "object_assign h target src = foldl (\<lambda>t (k, v). set_field k v t) target (own_entries h src)"

text \<open>
  The body of the loop over the options, after \<open>cleanObject(option)\<close>. The \<open>required\<close> and
  \<open>enum\<close> of a cleaned node, when present, are fresh arrays.
\<close>

definition merge_option :: "heap \<Rightarrow> string \<Rightarrow> oval \<Rightarrow> union_acc \<Rightarrow> union_acc" where
  "merge_option h unionKey cleanedOption acc =
    (let acc1 =
           (if truthy_o (get_field cleanedOption ''type'')
            then acc\<lparr>mergedTypes := set_add (get_field cleanedOption ''type'') (mergedTypes acc)\<rparr>
            else acc);
         props = get_field cleanedOption ''properties'';
         acc2 =
           (if truthy_o props \<and> typeof_object_o props
            then acc1\<lparr>mergedProperties := object_assign h (mergedProperties acc1) props,
                      hasProps := True\<rparr>
            else acc1);
         acc3 =
           (if unionKey = ''allOf'' then
              (case get_field cleanedOption ''required'' of
                 Arr rs \<Rightarrow> acc2\<lparr>mergedRequired := foldl (\<lambda>s r. set_add r s) (mergedRequired acc2) rs\<rparr>
               | _ \<Rightarrow> acc2)
            else acc2)
     in case get_field cleanedOption ''enum'' of
          Arr vs \<Rightarrow>
            acc3\<lparr>mergedEnum :=
                   foldl (\<lambda>s v. if isValidEnumValue v then set_add v s else s) (mergedEnum acc3) vs\<rparr>
        | _ \<Rightarrow> acc3)"

fun merge_options ::
  "heap \<Rightarrow> cleaner \<Rightarrow> string \<Rightarrow> jval list \<Rightarrow> union_acc \<Rightarrow> nat set \<Rightarrow> (union_acc \<times> nat set) outcome" where
  "merge_options h rec unionKey [] acc visited = Ok (acc, visited)"
| "merge_options h rec unionKey (opt # options) acc visited =
    obind (rec visited opt) (\<lambda>(cleanedOption, visited').
      merge_options h rec unionKey options
        (if truthy_o cleanedOption then merge_option h unionKey cleanedOption acc else acc)
        visited')"

text \<open>
  \<open>rs.filter(r => props.hasOwnProperty(r))\<close>: when \<open>props\<close> has a key \<open>hasOwnProperty\<close> of its
  own, that is what the callback calls, and it is not a function.
\<close>

definition hasOwnProperty_filter :: "(string \<times> oval) list \<Rightarrow> oval list \<Rightarrow> oval list outcome" where
  "hasOwnProperty_filter props rs =
    (if rs \<noteq> [] \<and> ''hasOwnProperty'' \<in> set (map fst props) then Throws TypeError
     else Ok (filter (\<lambda>r. case r of Val (Str s) \<Rightarrow> s \<in> set (map fst props) | _ \<Rightarrow> False) rs))"

text \<open>\<open>if (obj.description) cleaned.description = String(obj.description)\<close>\<close>

definition add_description ::
  "(jval \<Rightarrow> string) \<Rightarrow> (string \<times> jval) list \<Rightarrow> (string \<times> oval) list \<Rightarrow> (string \<times> oval) list" where
  "add_description S obj cleaned =
    (if truthy (get_prop obj ''description'')
     then set_field ''description'' (Val (Str (to_String S (get_prop obj ''description'')))) cleaned
     else cleaned)"

definition clean_union ::
  "(jval \<Rightarrow> string) \<Rightarrow> heap \<Rightarrow> cleaner \<Rightarrow> (string \<times> jval) list \<Rightarrow> string \<Rightarrow> nat set \<Rightarrow>
     (oval \<times> nat set) outcome" where
  "clean_union S h rec obj unionKey visited =
    (let options =
           filter (\<lambda>opt. truthy opt \<and> typeof_object opt) (array_items h (get_prop obj unionKey))
     in case options of
          [] \<Rightarrow>
            Ok (Obj [(''type'', Val (Str ''string'')),
                     (''description'',
                        Val (if truthy (get_prop obj ''description'')
                             then get_prop obj ''description'' else Str []))],
                visited)
        | first # others \<Rightarrow>
            obind (merge_options h rec unionKey options
                     \<lparr>mergedProperties = [], mergedRequired = [], mergedEnum = [],
                      mergedTypes = [], hasProps = False\<rparr> visited)
              (\<lambda>(acc, visited').
                if hasProps acc then
                  obind (if mergedRequired acc \<noteq> []
                         then hasOwnProperty_filter (mergedProperties acc) (mergedRequired acc)
                         else Ok [])
                    (\<lambda>validRequired.
                      Ok (Obj (add_description S obj
                                ([(''type'', Val (Str ''object'')),
                                  (''properties'', Obj (mergedProperties acc))] @
                                 (if validRequired \<noteq> [] then [(''required'', Arr validRequired)]
                                  else []))),
                          visited'))
                else if mergedEnum acc \<noteq> [] then
                  Ok (Obj (add_description S obj
                            [(''type'', Val (Str ''string'')), (''enum'', Arr (mergedEnum acc))]),
                      visited')
                else if length (mergedTypes acc) = 1 then
                  Ok (Obj (add_description S obj [(''type'', hd (mergedTypes acc))]), visited')
                else if length (mergedTypes acc) > 1 then
                  Ok (Obj (add_description S obj
                            [(''type'',
                              if Val (Str ''string'') \<in> set (mergedTypes acc) then Val (Str ''string'')
                              else if Val (Str ''object'') \<in> set (mergedTypes acc)
                                   then Val (Str ''object'')
                              else hd (mergedTypes acc))]),
                      visited')
                else rec visited' first))"

text \<open>Step 4: the fields that the \<open>type\<close> of the node sets.\<close>

definition resolve_type :: "heap \<Rightarrow> jval \<Rightarrow> (string \<times> oval) list outcome" where
  "resolve_type h t =
    (if \<not> truthy t then Ok []
     else if isArray h t then
       (let validTypes =
              filter (\<lambda>x. case x of Str s \<Rightarrow> s \<in> set VALID_TYPES | _ \<Rightarrow> False) (array_items h t)
        in if validTypes = [] then Ok [(''type'', Val (Str ''string''))]
           else if Str ''null'' \<in> set validTypes then
             Ok [(''type'',
                  Val (case find (\<lambda>x. x \<noteq> Str ''null'') validTypes of
                         Some x \<Rightarrow> x | None \<Rightarrow> Str ''string'')),
                 (''nullable'', Val (Bool True))]
           else Ok [(''type'', Val (hd validTypes))])
     else if (case t of Str s \<Rightarrow> s \<in> set VALID_TYPES | _ \<Rightarrow> False) then Ok [(''type'', Val t)]
     else obind (mapUnknownType t) (\<lambda>mapped. Ok [(''type'', mapped)]))"

text \<open>
  Step 5, the \<open>properties\<close>: \<open>cleanProps[pKey] = cleanedProp\<close> adds no own property when
  \<open>pKey\<close> is \<open>__proto__\<close>.
\<close>

fun clean_props ::
  "cleaner \<Rightarrow> (string \<times> jval) list \<Rightarrow> (string \<times> oval) list \<Rightarrow> nat set \<Rightarrow>
     ((string \<times> oval) list \<times> nat set) outcome" where
  "clean_props rec [] cleanProps visited = Ok (cleanProps, visited)"
| "clean_props rec ((pKey, pValue) # es) cleanProps visited =
    (if pKey \<noteq> [] then
       obind (rec visited pValue) (\<lambda>(cleanedProp, visited').
         clean_props rec es
           (if truthy_o cleanedProp \<and> pKey \<noteq> ''__proto__''
            then set_field pKey cleanedProp cleanProps else cleanProps)
           visited')
     else clean_props rec es cleanProps visited)"

fun is_number :: "jval \<Rightarrow> bool" where
  "is_number (Num r) = True"
| "is_number NaN = True"
| "is_number (Infinity s) = True"
| "is_number v = False"

definition supportedFormats :: "string list" where
  "supportedFormats = [''date-time'', ''date'', ''time'', ''email'', ''uri'', ''uuid'']"

text \<open>Step 5, one entry of \<open>Object.entries(obj)\<close>.\<close>

definition clean_field ::
  "(jval \<Rightarrow> string) \<Rightarrow> heap \<Rightarrow> cleaner \<Rightarrow> string \<Rightarrow> jval \<Rightarrow> (string \<times> oval) list \<Rightarrow> nat set \<Rightarrow>
     ((string \<times> oval) list \<times> nat set) outcome" where
  "clean_field S h rec key v cleaned visited =
    (if key \<notin> set SUPPORTED_KEYS \<or> key = ''type'' then Ok (cleaned, visited)
     else if key = ''properties'' \<and> typeof_object v \<and> v \<noteq> Null then
       obind (clean_props rec (entries_of h v) [] visited) (\<lambda>(cleanProps, visited').
         Ok (if cleanProps \<noteq> [] then set_field ''properties'' (Obj cleanProps) cleaned
             else cleaned, visited'))
     else if key = ''items'' \<and> typeof_object v then
       obind (rec visited v) (\<lambda>(cleanedItems, visited').
         Ok (if truthy_o cleanedItems then set_field ''items'' cleanedItems cleaned
             else cleaned, visited'))
     else if key = ''enum'' \<and> isArray h v then
       (let filteredEnum = filter isValidEnumValue (map Val (array_items h v)) in
        Ok (if filteredEnum \<noteq> [] then set_field ''enum'' (Arr filteredEnum) cleaned
            else cleaned, visited))
     else if key = ''required'' \<and> isArray h v then
       Ok (set_field ''_pendingRequired''
             (Arr (map Val (filter (\<lambda>r. case r of Str s \<Rightarrow> trim s \<noteq> [] | _ \<Rightarrow> False)
                              (array_items h v))))
             cleaned, visited)
     else if key = ''description'' then
       Ok (if truthy v then set_field ''description'' (Val (Str (to_String S v))) cleaned
           else cleaned, visited)
     else if key = ''nullable'' then
       Ok (set_field ''nullable'' (Val (Bool (truthy v))) cleaned, visited)
     else if key \<in> set [''minimum'', ''maximum'', ''minItems'', ''maxItems''] then
       Ok (if is_number v \<and> v \<noteq> NaN then set_field key (Val v) cleaned else cleaned, visited)
     else if key = ''format'' \<and> (case v of Str s \<Rightarrow> True | _ \<Rightarrow> False) then
       Ok (if (case v of Str s \<Rightarrow> s \<in> set supportedFormats | _ \<Rightarrow> False)
           then set_field ''format'' (Val v) cleaned else cleaned, visited)
     else Ok (cleaned, visited))"

fun clean_fields ::
  "(jval \<Rightarrow> string) \<Rightarrow> heap \<Rightarrow> cleaner \<Rightarrow> (string \<times> jval) list \<Rightarrow> (string \<times> oval) list \<Rightarrow>
     nat set \<Rightarrow> ((string \<times> oval) list \<times> nat set) outcome" where
  "clean_fields S h rec [] cleaned visited = Ok (cleaned, visited)"
| "clean_fields S h rec ((key, v) # es) cleaned visited =
    obind (clean_field S h rec key v cleaned visited) (\<lambda>(cleaned', visited').
      clean_fields S h rec es cleaned' visited')"

text \<open>Steps 6 to 8: the staged \<open>required\<close>, the type back-fill, the consistency pass.\<close>

definition finish_node :: "heap \<Rightarrow> (string \<times> oval) list \<Rightarrow> oval outcome" where
  "finish_node h cleaned =
    obind
      (if truthy_o (get_field (Obj cleaned) ''_pendingRequired'')
          \<and> truthy_o (get_field (Obj cleaned) ''properties'')
       then
         obind (hasOwnProperty_filter
                  (case get_field (Obj cleaned) ''properties'' of Obj ps \<Rightarrow> ps | _ \<Rightarrow> [])
                  (case get_field (Obj cleaned) ''_pendingRequired'' of Arr rs \<Rightarrow> rs | _ \<Rightarrow> []))
           (\<lambda>validRequired.
             Ok (if validRequired \<noteq> [] then set_field ''required'' (Arr validRequired) cleaned
                 else cleaned))
       else Ok cleaned)
      (\<lambda>cleaned1.
        let cleaned2 = delete_field ''_pendingRequired'' cleaned1;
            cleaned3 =
              (if \<not> truthy_o (get_field (Obj cleaned2) ''type'') then
                 set_field ''type''
                   (Val (Str
                     (if truthy_o (get_field (Obj cleaned2) ''properties'') then ''object''
                      else if truthy_o (get_field (Obj cleaned2) ''items'') then ''array''
                      else if truthy_o (get_field (Obj cleaned2) ''enum'') then
                        (case get_field (Obj cleaned2) ''enum'' of
                           Arr (x # xs) \<Rightarrow> inferType h x
                         | _ \<Rightarrow> ''string'')
                      else ''string'')))
                   cleaned2
               else cleaned2);
            cleaned4 =
              (if get_field (Obj cleaned3) ''type'' = Val (Str ''array'')
                  \<and> \<not> truthy_o (get_field (Obj cleaned3) ''items'')
               then set_field ''items'' (Obj [(''type'', Val (Str ''string''))]) cleaned3
               else cleaned3);
            cleaned5 =
              (if get_field (Obj cleaned4) ''type'' = Val (Str ''object'')
                  \<and> \<not> truthy_o (get_field (Obj cleaned4) ''properties'')
               then set_field ''properties'' (Obj []) cleaned4
               else cleaned4)
        in Ok (Obj cleaned5))"

subsection \<open>\<open>cleanObject\<close> and \<open>cleanJsonSchema\<close>\<close>

text \<open>A plain object, once it is in \<open>visited\<close>: steps 1 to 8 in the order of the source.\<close>

definition clean_plain ::
  "(jval \<Rightarrow> string) \<Rightarrow> heap \<Rightarrow> cleaner \<Rightarrow> (string \<times> jval) list \<Rightarrow> nat set \<Rightarrow>
     (oval \<times> nat set) outcome" where
  "clean_plain S h rec obj visited =
    (if truthy (get_prop obj ''$ref'') then
       Ok (Obj [(''type'', Val (Str ''object'')),
                (''description'', Val (Str (''Reference: '' @ to_String S (get_prop obj ''$ref''))))],
           visited)
     else
       (case find (\<lambda>key. truthy (get_prop obj key) \<and> isArray h (get_prop obj key))
                  [''anyOf'', ''oneOf'', ''allOf''] of
          Some unionKey \<Rightarrow> clean_union S h rec obj unionKey visited
        | None \<Rightarrow>
            if get_prop obj ''const'' \<noteq> Undefined then
              (if \<not> isValidEnumValue (Val (get_prop obj ''const'')) then
                 Ok (Obj (add_description S obj
                           [(''type'', Val (Str (inferType h (Val (get_prop obj ''const'')))))]),
                     visited)
               else
                 Ok (Obj (add_description S obj
                           [(''type'', Val (Str (inferType h (Val (get_prop obj ''const''))))),
                            (''enum'', Arr [Val (get_prop obj ''const'')])]),
                     visited))
            else
              obind (resolve_type h (get_prop obj ''type'')) (\<lambda>cleaned0.
              obind (clean_fields S h rec obj cleaned0 visited) (\<lambda>(cleaned, visited').
              obind (finish_node h cleaned) (\<lambda>node.
              Ok (node, visited'))))))"

definition cleanObject_body :: "(jval \<Rightarrow> string) \<Rightarrow> heap \<Rightarrow> cleaner \<Rightarrow> cleaner" where
  "cleanObject_body S h rec visited obj =
    (case obj of
       Undefined \<Rightarrow> Ok (Val Null, visited)
     | Null \<Rightarrow> Ok (Val Null, visited)
     | Ref a \<Rightarrow>
         if a \<in> visited then Ok (circular_marker, visited)
         else
           (case h a of
              HArr items \<Rightarrow>
                obind (clean_array rec items visited) (\<lambda>(xs, visited').
                  Ok (Arr (filter (\<lambda>x. x \<noteq> Val Null \<and> x \<noteq> Val Undefined) xs), visited'))
            | HObj entries \<Rightarrow> clean_plain S h rec entries (insert a visited))
     | _ \<Rightarrow> Ok (Val obj, visited))"

text \<open>
  The recursion of \<open>cleanObject\<close>, by depth: with fuel \<open>n\<close> the calls may nest \<open>n\<close> deep.
\<close>

primrec cleanObject :: "(jval \<Rightarrow> string) \<Rightarrow> heap \<Rightarrow> nat \<Rightarrow> cleaner" where
  "cleanObject S h 0 = (\<lambda>visited obj. OutOfFuel)"
| "cleanObject S h (Suc n) = cleanObject_body S h (cleanObject S h n)"

text \<open>
  \<open>cleanJsonSchema(schema, visited = new WeakSet())\<close>: the guard (either disjunct returns
  \<open>schema\<close>), the check of \<open>visited\<close>, \<open>visited.add(schema)\<close>, and then
  \<open>cleanObject(schema)\<close>.
\<close>

definition cleanJsonSchema ::
  "(jval \<Rightarrow> string) \<Rightarrow> heap \<Rightarrow> nat \<Rightarrow> jval \<Rightarrow> nat set \<Rightarrow> oval outcome" where
  "cleanJsonSchema S h fuel schema visited =
    (if \<not> truthy schema then Ok (Val schema)
     else if \<not> typeof_object schema then Ok (Val schema)
     else
       (case schema of
          Ref a \<Rightarrow>
            if a \<in> visited then Ok circular_marker
            else obind (cleanObject S h fuel (insert a visited) schema)
                   (\<lambda>(cleaned, visited'). Ok cleaned)
        | _ \<Rightarrow> Ok (Val schema)))"

text \<open>
  When the output of one run is the input of the next, it is an object in the store:
  \<open>represents h v y\<close> says that \<open>v\<close>, in the store \<open>h\<close>, is the tree \<open>y\<close>, entry for entry
  (whatever the order of the keys).
\<close>

fun represents :: "heap \<Rightarrow> jval \<Rightarrow> oval \<Rightarrow> bool"
  and represents_items :: "heap \<Rightarrow> jval list \<Rightarrow> oval list \<Rightarrow> bool"
  and represents_fields :: "heap \<Rightarrow> (string \<times> jval) list \<Rightarrow> (string \<times> oval) list \<Rightarrow> bool" where
  "represents h v (Val w) = (v = w)"
| "represents h v (Host x) = False"
| "represents h v (Arr ys) =
    (case v of
       Ref a \<Rightarrow> (case h a of HArr vs \<Rightarrow> represents_items h vs ys | HObj es \<Rightarrow> False)
     | _ \<Rightarrow> False)"
| "represents h v (Obj fs) =
    (case v of
       Ref a \<Rightarrow>
         (case h a of
            HObj es \<Rightarrow>
              length es = length fs \<and> distinct (map fst es) \<and> represents_fields h es fs
          | HArr vs \<Rightarrow> False)
     | _ \<Rightarrow> False)"
| "represents_items h vs [] = (vs = [])"
| "represents_items h vs (y # ys) =
    (case vs of [] \<Rightarrow> False | v # vs' \<Rightarrow> represents h v y \<and> represents_items h vs' ys)"
| "represents_fields h es [] = True"
| "represents_fields h es ((k, y) # fs) =
    (k \<in> set (map fst es) \<and> represents h (get_prop es k) y \<and> represents_fields h es fs)"

section \<open>Generation parameters\<close>

text \<open>
  \<open>parameters\<close> and \<open>config.defaults\<close> carry the same four optional fields; a field that is
  \<open>null\<close> or \<open>undefined\<close> is \<open>None\<close>. The values themselves are opaque.
\<close>

record 'v sampling =
  top_p :: "'v option"
  top_k :: "'v option"
  temperature :: "'v option"
  max_tokens :: "'v option"

record thinkingConfig =
  includeThoughts :: bool
  thinkingBudget :: nat

record 'v generationConfig =
  topP :: "'v option"
  topK :: "'v option"
  gen_temperature :: "'v option"
  candidateCount :: nat
  maxOutputTokens :: "'v option"
  stopSequences :: "string list"
  gen_thinkingConfig :: thinkingConfig

text \<open>\<open>a ?? b\<close>\<close>

definition nullish :: "'v option \<Rightarrow> 'v option \<Rightarrow> 'v option" where
  "nullish a b = (case a of Some x \<Rightarrow> Some x | None \<Rightarrow> b)"

text \<open>
  \<open>generateGenerationConfig(parameters, enableThinking, actualModelName)\<close>; the imported
  \<open>config.defaults\<close> is the first argument. \<open>delete generationConfig.topP\<close> leaves the field
  absent.
\<close>

definition generateGenerationConfig ::
  "'v sampling \<Rightarrow> 'v sampling \<Rightarrow> bool \<Rightarrow> string \<Rightarrow> 'v generationConfig" where
  "generateGenerationConfig defaults parameters enableThinking actualModelName =
    (let generationConfig = \<lparr>
        topP = nullish (top_p parameters) (top_p defaults),
        topK = nullish (top_k parameters) (top_k defaults),
        gen_temperature = nullish (temperature parameters) (temperature defaults),
        candidateCount = 1,
        maxOutputTokens = nullish (max_tokens parameters) (max_tokens defaults),
        stopSequences =
          [''<|user|>'', ''<|bot|>'', ''<|context_request|>'', ''<|endoftext|>'',
           ''<|end_of_turn|>''],
        gen_thinkingConfig = \<lparr>
          includeThoughts = enableThinking,
          thinkingBudget = (if enableThinking then 1024 else 0)\<rparr>\<rparr>
     in if enableThinking \<and> includes_str actualModelName ''claude''
        then generationConfig\<lparr>topP := None\<rparr>
        else generationConfig)"

section \<open>Concrete inputs\<close>

text \<open>
  A runtime whose \<open>JSON.parse\<close> always succeeds, with one structured value, and the empty
  signature cache; the worked examples below run on them.
\<close>

definition rt0 :: "unit runtime" where
  "rt0 = \<lparr>JSON_parse = (\<lambda>s. Some ()), JSON_stringify = (\<lambda>c. ''{}''), empty_object = ()\<rparr>"

definition cache0 :: signature_cache where
  "cache0 = \<lparr>thoughtSignatureMap = Map.empty, textThoughtSignatureMap = Map.empty\<rparr>"

text \<open>
  A store given by the list of its objects (address \<open>i\<close> holds the \<open>i\<close>-th), and a \<open>String\<close>
  that prints every object as a plain object.
\<close>

definition heap_of :: "hobj list \<Rightarrow> heap" where
  "heap_of objs = (\<lambda>a. if a < length objs then objs ! a else HObj [])"

definition S0 :: "jval \<Rightarrow> string" where
  "S0 v = ''[object Object]''"

lemmas conv_defs = openaiMessageToAntigravity_def convert_message_def handleUserMessage_def
  extractImagesFromContent_def handleAssistantMessage_def handleToolCall_def tool_output_def
  contentText_of_def functionCall_part_def getThoughtSignature_def text_part_def
  getTextThoughtSignature_def registerTextThoughtSignature_def registerThoughtSignature_def
  normalizeTextForSignature_def match_image_def
  trim_def is_ws_def Let_def rt0_def cache0_def

section \<open>Request assembler: the stop sequences\<close>

text \<open>
  C5 (as the code has it): for every input, the generation config carries the same fixed
  \<open>stopSequences\<close> list, and that list has five tokens.
\<close>

theorem generateGenerationConfig_stopSequences:
  "stopSequences (generateGenerationConfig defaults parameters enableThinking actualModelName) =
     [''<|user|>'', ''<|bot|>'', ''<|context_request|>'', ''<|endoftext|>'', ''<|end_of_turn|>'']"
  by (simp add: generateGenerationConfig_def Let_def)

text \<open>
  C5 as stated asks for exactly four tokens; with empty parameters and defaults the list has
  five.
\<close>

theorem generateGenerationConfig_stopSequences_not_four:
  "length (stopSequences (generateGenerationConfig
      \<lparr>top_p = None, top_k = None, temperature = None, max_tokens = (None :: rat option)\<rparr>
      \<lparr>top_p = None, top_k = None, temperature = None, max_tokens = None\<rparr>
      False ''gemini-2.5-pro'')) \<noteq> 4"
  by (simp add: generateGenerationConfig_def Let_def)

section \<open>Signature cache: the text round trip\<close>

lemma trim_trim: "trim (trim s) = trim s"
proof -
  define a where "a = dropWhile is_ws s"
  define b' where "b' = dropWhile is_ws (rev a)"
  have t: "trim s = rev b'"
    by (simp add: trim_def a_def b'_def)
  have "dropWhile is_ws (rev b') = rev b'"
  proof (cases "b' = []")
    case True
    then show ?thesis by simp
  next
    case False
    then obtain x where x: "x \<in> set (rev a)" "\<not> is_ws x"
      unfolding b'_def by (auto simp: dropWhile_eq_Nil_conv)
    then have "last b' = last (rev a)"
      unfolding b'_def by (rule dropWhile_last)
    moreover from x have "a \<noteq> []" by auto
    ultimately have "hd (rev b') = hd a"
      using False by (simp add: hd_rev last_rev)
    moreover have "\<not> is_ws (hd a)"
      using \<open>a \<noteq> []\<close> unfolding a_def by (rule hd_dropWhile)
    ultimately show ?thesis
      by (simp add: dropWhile_eq_self_iff)
  qed
  moreover have "dropWhile is_ws b' = b'"
    unfolding b'_def by simp
  ultimately show ?thesis
    unfolding t by (simp add: trim_def)
qed

lemma register_map:
  assumes "t \<noteq> []" "sg \<noteq> []"
  shows "textThoughtSignatureMap (registerTextThoughtSignature cache t sg) k =
    (if k = t \<or> (k = trim t \<and> trim t \<noteq> []) \<or>
        (k = normalizeTextForSignature (trim t) \<and> normalizeTextForSignature (trim t) \<noteq> [])
     then Some \<lparr>entry_signature = sg, entry_text = t\<rparr>
     else textThoughtSignatureMap cache k)"
  using assms by (auto simp: registerTextThoughtSignature_def Let_def)

text \<open>
  C6 (as the code has it): after \<open>registerTextThoughtSignature(t, s)\<close> with \<open>s\<close> non-empty and
  \<open>t\<close> not empty or white space only, whatever the cache held before,
  \<open>getTextThoughtSignature\<close> returns the entry \<open>{signature: s, text: t}\<close> for \<open>t\<close> itself and
  for \<open>t\<close> trimmed; it returns that entry for any text \<open>u\<close> (not white space only) whose trimmed
  or normalized form is a key stored by this call, provided the cache held no older entry under
  \<open>u\<close> or under \<open>u\<close> trimmed (the lookup tries raw, trimmed, normalized, and the first hit
  wins); and empty or white-space-only input is always absent.
\<close>

theorem text_signature_round_trip:
  "sg \<noteq> [] \<and> trim t \<noteq> [] \<longrightarrow>
     (let cache' = registerTextThoughtSignature cache t sg;
          entry = Some \<lparr>entry_signature = sg, entry_text = t\<rparr>
      in getTextThoughtSignature cache' t = entry
       \<and> getTextThoughtSignature cache' (trim t) = entry
       \<and> (\<forall>u. trim u \<noteq> []
              \<and> textThoughtSignatureMap cache u = None
              \<and> textThoughtSignatureMap cache (trim u) = None
              \<and> (trim u \<in> {t, trim t, normalizeTextForSignature (trim t)}
                 \<or> (normalizeTextForSignature (trim u) \<noteq> [] \<and> normalizeTextForSignature (trim u) \<in> {t, trim t, normalizeTextForSignature (trim t)}))
            \<longrightarrow> getTextThoughtSignature cache' u = entry)
       \<and> (\<forall>u. trim u = [] \<longrightarrow> getTextThoughtSignature cache' u = None))"
proof (intro impI)
  assume a: "sg \<noteq> [] \<and> trim t \<noteq> []"
  then have t: "t \<noteq> []" by (auto simp: trim_def)
  note m = register_map [OF t, of sg cache]
  from a have sg: "sg \<noteq> []" by simp
  have 1: "getTextThoughtSignature (registerTextThoughtSignature cache t sg) t = Some \<lparr>entry_signature = sg, entry_text = t\<rparr>"
    using a by (simp add: getTextThoughtSignature_def m [OF sg])
  have 2: "getTextThoughtSignature (registerTextThoughtSignature cache t sg) (trim t) = Some \<lparr>entry_signature = sg, entry_text = t\<rparr>"
    using a by (simp add: getTextThoughtSignature_def m [OF sg] trim_trim)
  have 3: "getTextThoughtSignature (registerTextThoughtSignature cache t sg) u = Some \<lparr>entry_signature = sg, entry_text = t\<rparr>"
    if "trim u \<noteq> []" "textThoughtSignatureMap cache u = None" "textThoughtSignatureMap cache (trim u) = None"
       "trim u \<in> {t, trim t, normalizeTextForSignature (trim t)}
                 \<or> (normalizeTextForSignature (trim u) \<noteq> [] \<and> normalizeTextForSignature (trim u) \<in> {t, trim t, normalizeTextForSignature (trim t)})" for u
    using that a by (auto simp: getTextThoughtSignature_def m [OF sg] Let_def)
  have 4: "getTextThoughtSignature c u = None" if "trim u = []" for u c
    using that by (simp add: getTextThoughtSignature_def)
  show "let cache' = registerTextThoughtSignature cache t sg;
          entry = Some \<lparr>entry_signature = sg, entry_text = t\<rparr>
      in getTextThoughtSignature cache' t = entry
       \<and> getTextThoughtSignature cache' (trim t) = entry
       \<and> (\<forall>u. trim u \<noteq> []
              \<and> textThoughtSignatureMap cache u = None
              \<and> textThoughtSignatureMap cache (trim u) = None
              \<and> (trim u \<in> {t, trim t, normalizeTextForSignature (trim t)}
                 \<or> (normalizeTextForSignature (trim u) \<noteq> [] \<and> normalizeTextForSignature (trim u) \<in> {t, trim t, normalizeTextForSignature (trim t)}))
            \<longrightarrow> getTextThoughtSignature cache' u = entry)
       \<and> (\<forall>u. trim u = [] \<longrightarrow> getTextThoughtSignature cache' u = None)"
    unfolding Let_def using 1 2 3 4 by blast
qed

text \<open>
  The documented example: stored under \<open>"Hello "\<close>, found for \<open>"Hello "\<close>, \<open>"Hello"\<close> and
  \<open>" Hello \r\n "\<close>; the empty text misses.
\<close>

theorem text_signature_round_trip_witness:
  "(let cache' = registerTextThoughtSignature cache0 ''Hello '' ''sig'';
        entry = Some \<lparr>entry_signature = ''sig'', entry_text = ''Hello ''\<rparr>
    in getTextThoughtSignature cache' ''Hello '' = entry
     \<and> getTextThoughtSignature cache' ''Hello'' = entry
     \<and> getTextThoughtSignature cache' ('' Hello '' @ [CHR 0x0D, CHR 0x0A] @ '' '') = entry
     \<and> getTextThoughtSignature cache' [] = None)"
  using text_signature_round_trip [where sg = "''sig''" and t = "''Hello ''" and cache = cache0]
  by (simp add: conv_defs)

text \<open>
  C6 as stated fails twice. A text of one space is non-empty, is stored, and is never found.
  And with an older entry stored under \<open>" Hello "\<close>, registering \<open>"Hello"\<close> with a new signature
  stores the key \<open>"Hello"\<close>, the trimmed form of \<open>" Hello "\<close>; the lookup of \<open>" Hello "\<close> still
  returns the old entry, its raw hit.
\<close>

theorem text_signature_round_trip_fails:
  "'' '' \<noteq> [] \<and> ''sig'' \<noteq> [] \<and>
   getTextThoughtSignature
     (registerTextThoughtSignature
        \<lparr>thoughtSignatureMap = Map.empty, textThoughtSignatureMap = Map.empty\<rparr> '' '' ''sig'')
     '' '' = None
   \<and> trim '' Hello '' = ''Hello'' \<and>
   textThoughtSignatureMap
     (registerTextThoughtSignature
        (registerTextThoughtSignature
           \<lparr>thoughtSignatureMap = Map.empty, textThoughtSignatureMap = Map.empty\<rparr> '' Hello '' ''old'')
        ''Hello'' ''new'') ''Hello'' = Some \<lparr>entry_signature = ''new'', entry_text = ''Hello''\<rparr>
   \<and> getTextThoughtSignature
     (registerTextThoughtSignature
        (registerTextThoughtSignature
           \<lparr>thoughtSignatureMap = Map.empty, textThoughtSignatureMap = Map.empty\<rparr> '' Hello '' ''old'')
        ''Hello'' ''new'')
     '' Hello '' = Some \<lparr>entry_signature = ''old'', entry_text = '' Hello ''\<rparr>"
  by (simp add: conv_defs)

section \<open>Message converter: tool turns\<close>

lemma handleAssistantMessage_last:
  "handleAssistantMessage rt cache a out m \<noteq> [] \<and>
   turn_role (last (handleAssistantMessage rt cache a out m)) = ''model''"
  by (simp add: handleAssistantMessage_def Let_def)

lemma handleToolCall_after_model:
  assumes "out \<noteq> []" "turn_role (last out) = ''model''"
  shows "handleToolCall rt t out =
    out @ [\<lparr>turn_role = ''user'',
            parts = [FunctionResponse (tool_call_id t)
                       (find_functionName (tool_call_id t) (rev out) [])
                       (tool_output rt (content t))]\<rparr>]"
  using assms by (simp add: handleToolCall_def Let_def)

lemma handleToolCall_merge:
  assumes "out \<noteq> []" "turn_role (last out) = ''user''"
    "list_ex is_functionResponse (parts (last out))"
  shows "handleToolCall rt t out =
    butlast out @ [(last out)\<lparr>parts := parts (last out) @
       [FunctionResponse (tool_call_id t)
          (find_functionName (tool_call_id t) (rev out) [])
          (tool_output rt (content t))]\<rparr>]"
  using assms by (simp add: handleToolCall_def Let_def)

lemma fold_snoc:
  "openaiMessageToAntigravity rt cache (ms @ [x]) m =
     convert_message rt cache m (openaiMessageToAntigravity rt cache ms m) x"
  by (simp add: openaiMessageToAntigravity_def)

text \<open>
  C8: an assistant turn with two tool calls followed by two tool turns adds, after the turns
  converted so far, one turn of role \<open>user\<close> with exactly two function-response parts, in the
  order of the tool turns. And a tool turn whose preceding output turn has role \<open>user\<close> and
  holds a function-response part is appended to that turn.
\<close>

theorem tool_turns_collapse:
  "(role a = ''assistant'' \<and> tool_calls a = [callA, callB] \<and> role toolA = ''tool'' \<and> role toolB = ''tool'' \<longrightarrow>
      (let out = openaiMessageToAntigravity rt cache (pre @ [a]) m in
       openaiMessageToAntigravity rt cache (pre @ [a, toolA, toolB]) m =
         out @ [\<lparr>turn_role = ''user'',
                 parts = [FunctionResponse (tool_call_id toolA)
                            (find_functionName (tool_call_id toolA) (rev out) [])
                            (tool_output rt (content toolA)),
                          FunctionResponse (tool_call_id toolB)
                            (find_functionName (tool_call_id toolB) (rev out) [])
                            (tool_output rt (content toolB))]\<rparr>]))
   \<and> (out \<noteq> [] \<and> turn_role (last out) = ''user''
        \<and> list_ex is_functionResponse (parts (last out)) \<longrightarrow>
      handleToolCall rt t out =
        butlast out @ [(last out)\<lparr>parts := parts (last out) @
           [FunctionResponse (tool_call_id t)
              (find_functionName (tool_call_id t) (rev out) [])
              (tool_output rt (content t))]\<rparr>])"
proof (intro conjI impI)
  assume h: "role a = ''assistant'' \<and> tool_calls a = [callA, callB] \<and> role toolA = ''tool'' \<and> role toolB = ''tool''"
  define out0 where "out0 = openaiMessageToAntigravity rt cache pre m"
  define out1 where "out1 = openaiMessageToAntigravity rt cache (pre @ [a]) m"
  have o1: "out1 = handleAssistantMessage rt cache a out0 m"
    using h by (simp add: out1_def out0_def fold_snoc convert_message_def)
  then have l1: "out1 \<noteq> []" "turn_role (last out1) = ''model''"
    using handleAssistantMessage_last [of rt cache a out0 m] by simp_all
  define fr1 where "fr1 = (FunctionResponse (tool_call_id toolA)
      (find_functionName (tool_call_id toolA) (rev out1) []) (tool_output rt (content toolA)) :: 'a part)"
  have "pre @ [a, toolA, toolB] = ((pre @ [a]) @ [toolA]) @ [toolB]" by simp
  then have "openaiMessageToAntigravity rt cache (pre @ [a, toolA, toolB]) m =
      handleToolCall rt toolB (handleToolCall rt toolA out1)"
    using h by (simp only: fold_snoc out1_def convert_message_def) simp
  also have "handleToolCall rt toolA out1 = out1 @ [\<lparr>turn_role = ''user'', parts = [fr1]\<rparr>]"
    unfolding fr1_def by (rule handleToolCall_after_model [OF l1])
  also have "handleToolCall rt toolB (out1 @ [\<lparr>turn_role = ''user'', parts = [fr1]\<rparr>]) =
      out1 @ [\<lparr>turn_role = ''user'', parts = [fr1,
         FunctionResponse (tool_call_id toolB)
           (find_functionName (tool_call_id toolB) (rev out1) []) (tool_output rt (content toolB))]\<rparr>]"
    by (subst handleToolCall_merge) (simp_all add: fr1_def)
  finally show "let out = openaiMessageToAntigravity rt cache (pre @ [a]) m in
       openaiMessageToAntigravity rt cache (pre @ [a, toolA, toolB]) m =
         out @ [\<lparr>turn_role = ''user'',
                 parts = [FunctionResponse (tool_call_id toolA)
                            (find_functionName (tool_call_id toolA) (rev out) [])
                            (tool_output rt (content toolA)),
                          FunctionResponse (tool_call_id toolB)
                            (find_functionName (tool_call_id toolB) (rev out) [])
                            (tool_output rt (content toolB))]\<rparr>]"
    by (simp add: Let_def out1_def fr1_def)
next
  assume "out \<noteq> [] \<and> turn_role (last out) = ''user'' \<and> list_ex is_functionResponse (parts (last out))"
  then show "handleToolCall rt t out =
        butlast out @ [(last out)\<lparr>parts := parts (last out) @
           [FunctionResponse (tool_call_id t)
              (find_functionName (tool_call_id t) (rev out) [])
              (tool_output rt (content t))]\<rparr>]"
    by (simp add: handleToolCall_merge)
qed

theorem tool_turns_collapse_witness:
  "openaiMessageToAntigravity rt0 cache0
     [\<lparr>role = ''user'', content = StringContent ''Hi'', tool_calls = [], tool_call_id = None\<rparr>,
      \<lparr>role = ''assistant'', content = NoContent,
        tool_calls = [\<lparr>call_id = ''call_1'', function_name = ''f'', function_arguments = ArgsString ''{}''\<rparr>,
                      \<lparr>call_id = ''call_2'', function_name = ''g'', function_arguments = ArgsOther\<rparr>],
        tool_call_id = None\<rparr>,
      \<lparr>role = ''tool'', content = StringContent ''r1'', tool_calls = [], tool_call_id = Some ''call_1''\<rparr>,
      \<lparr>role = ''tool'', content = StringContent ''r2'', tool_calls = [], tool_call_id = Some ''call_2''\<rparr>]
     ''gemini-2.5-pro'' =
   [\<lparr>turn_role = ''user'', parts = [TextPart ''Hi'' None]\<rparr>,
    \<lparr>turn_role = ''model'', parts = [FunctionCall ''call_1'' ''f'' () None, FunctionCall ''call_2'' ''g'' () None]\<rparr>,
    \<lparr>turn_role = ''user'', parts = [FunctionResponse (Some ''call_1'') ''f'' (Some ''r1''),
                                    FunctionResponse (Some ''call_2'') ''g'' (Some ''r2'')]\<rparr>]
   \<and> handleToolCall rt0
        \<lparr>role = ''tool'', content = StringContent ''r2'', tool_calls = [], tool_call_id = Some ''call_2''\<rparr>
        [\<lparr>turn_role = ''user'', parts = [FunctionResponse (Some ''call_1'') ''f'' (Some ''r1'')]\<rparr>] =
      [\<lparr>turn_role = ''user'', parts = [FunctionResponse (Some ''call_1'') ''f'' (Some ''r1''),
                                       FunctionResponse (Some ''call_2'') [] (Some ''r2'')]\<rparr>]"
  using tool_turns_collapse [where rt = rt0 and cache = cache0 and m = "''gemini-2.5-pro''"
      and a = "\<lparr>role = ''assistant'', content = NoContent,
        tool_calls = [\<lparr>call_id = ''call_1'', function_name = ''f'', function_arguments = ArgsString ''{}''\<rparr>,
                      \<lparr>call_id = ''call_2'', function_name = ''g'', function_arguments = ArgsOther\<rparr>],
        tool_call_id = None\<rparr>"
      and callA = "\<lparr>call_id = ''call_1'', function_name = ''f'', function_arguments = ArgsString ''{}''\<rparr>"
      and callB = "\<lparr>call_id = ''call_2'', function_name = ''g'', function_arguments = ArgsOther\<rparr>"
      and toolA = "\<lparr>role = ''tool'', content = StringContent ''r1'', tool_calls = [], tool_call_id = Some ''call_1''\<rparr>"
      and toolB = "\<lparr>role = ''tool'', content = StringContent ''r2'', tool_calls = [], tool_call_id = Some ''call_2''\<rparr>"
      and pre = "[\<lparr>role = ''user'', content = StringContent ''Hi'', tool_calls = [], tool_call_id = None\<rparr>]"
      and out = "[\<lparr>turn_role = ''user'', parts = [FunctionResponse (Some ''call_1'') ''f'' (Some ''r1'')]\<rparr>]"
      and t = "\<lparr>role = ''tool'', content = StringContent ''r2'', tool_calls = [], tool_call_id = Some ''call_2''\<rparr>"]
  by (simp add: conv_defs)

section \<open>Message converter: assistant turns\<close>

text \<open>
  C9: an assistant turn with tool calls whose extracted text is empty or white space only,
  after a turn of role \<open>model\<close>, appends its function-call parts to that turn. An assistant
  turn whose extracted text is neither (the complement of the first case) always starts a new
  \<open>model\<close> turn: a text part first, then its function-call parts.
\<close>

theorem assistant_turn_merging:
  "(tool_calls msg \<noteq> [] \<and> trim (contentText_of (content msg)) = []
      \<and> out \<noteq> [] \<and> turn_role (last out) = ''model'' \<longrightarrow>
      handleAssistantMessage rt cache msg out m =
        butlast out @ [(last out)\<lparr>parts := parts (last out) @
                         map (functionCall_part rt cache) (tool_calls msg)\<rparr>])
   \<and> (trim (contentText_of (content msg)) \<noteq> [] \<longrightarrow>
      (\<exists>txt sg.
        handleAssistantMessage rt cache msg out m =
          out @ [\<lparr>turn_role = ''model'',
                  parts = TextPart txt sg # map (functionCall_part rt cache) (tool_calls msg)\<rparr>]))"
  by (simp add: handleAssistantMessage_def Let_def text_part_def)

theorem assistant_turn_merging_witness:
  "handleAssistantMessage rt0 cache0
     \<lparr>role = ''assistant'', content = StringContent '' '',
       tool_calls = [\<lparr>call_id = ''call_1'', function_name = ''f'', function_arguments = ArgsOther\<rparr>],
       tool_call_id = None\<rparr>
     [\<lparr>turn_role = ''model'', parts = [TextPart ''Let me look.'' None]\<rparr>] ''gemini-2.5-pro'' =
   [\<lparr>turn_role = ''model'', parts = [TextPart ''Let me look.'' None, FunctionCall ''call_1'' ''f'' () None]\<rparr>]
   \<and> handleAssistantMessage rt0 cache0
     \<lparr>role = ''assistant'', content = StringContent ''Done.'',
       tool_calls = [\<lparr>call_id = ''call_1'', function_name = ''f'', function_arguments = ArgsOther\<rparr>],
       tool_call_id = None\<rparr>
     [\<lparr>turn_role = ''model'', parts = [TextPart ''Let me look.'' None]\<rparr>] ''gemini-2.5-pro'' =
   [\<lparr>turn_role = ''model'', parts = [TextPart ''Let me look.'' None]\<rparr>,
    \<lparr>turn_role = ''model'', parts = [TextPart ''Done.'' None, FunctionCall ''call_1'' ''f'' () None]\<rparr>]"
  using assistant_turn_merging [where rt = rt0 and cache = cache0 and m = "''gemini-2.5-pro''"
     and msg = "\<lparr>role = ''assistant'', content = StringContent '' '',
       tool_calls = [\<lparr>call_id = ''call_1'', function_name = ''f'', function_arguments = ArgsOther\<rparr>],
       tool_call_id = None\<rparr>"
     and out = "[\<lparr>turn_role = ''model'', parts = [TextPart ''Let me look.'' None]\<rparr>]"]
   assistant_turn_merging [where rt = rt0 and cache = cache0 and m = "''gemini-2.5-pro''"
     and msg = "\<lparr>role = ''assistant'', content = StringContent ''Done.'',
       tool_calls = [\<lparr>call_id = ''call_1'', function_name = ''f'', function_arguments = ArgsOther\<rparr>],
       tool_call_id = None\<rparr>"
     and out = "[\<lparr>turn_role = ''model'', parts = [TextPart ''Let me look.'' None]\<rparr>]"]
  by (simp add: conv_defs)

text \<open>
  C4 (as the code has it): for an assistant turn whose extracted text is not empty or white
  space only, the text of the emitted text part is the extracted text when the model name
  does not contain \<open>gemini-3\<close> or the text-signature lookup misses; on a hit it is the
  \<open>text\<close> of the cache entry found, the text under which the signature was registered.
\<close>

theorem text_part_text:
  "trim (contentText_of (content msg)) \<noteq> [] \<longrightarrow>
     (\<exists>sg. handleAssistantMessage rt cache msg out m =
        out @ [\<lparr>turn_role = ''model'',
                parts = TextPart
                  (if includes_str m ''gemini-3'' then
                     (case getTextThoughtSignature cache (contentText_of (content msg)) of
                        Some e \<Rightarrow> entry_text e
                      | None \<Rightarrow> contentText_of (content msg))
                   else contentText_of (content msg)) sg
                  # map (functionCall_part rt cache) (tool_calls msg)\<rparr>])"
  by (simp add: handleAssistantMessage_def Let_def text_part_def)

theorem text_part_text_witness:
  "handleAssistantMessage rt0
     (registerTextThoughtSignature cache0 ''Hello '' ''sig'')
     \<lparr>role = ''assistant'', content = StringContent ''Hello'', tool_calls = [], tool_call_id = None\<rparr>
     [] ''gemini-3-pro-high'' =
   [\<lparr>turn_role = ''model'', parts = [TextPart ''Hello '' (Some ''sig'')]\<rparr>]
   \<and> handleAssistantMessage rt0
     (registerTextThoughtSignature cache0 ''Hello '' ''sig'')
     \<lparr>role = ''assistant'', content = StringContent ''Hello'', tool_calls = [], tool_call_id = None\<rparr>
     [] ''gemini-2.5-pro'' =
   [\<lparr>turn_role = ''model'', parts = [TextPart ''Hello'' None]\<rparr>]"
  using text_part_text [where rt = rt0 and out = "[]" and m = "''gemini-3-pro-high''"
      and cache = "registerTextThoughtSignature cache0 ''Hello '' ''sig''"
      and msg = "\<lparr>role = ''assistant'', content = StringContent ''Hello'', tool_calls = [], tool_call_id = None\<rparr>"]
    text_part_text [where rt = rt0 and out = "[]" and m = "''gemini-2.5-pro''"
      and cache = "registerTextThoughtSignature cache0 ''Hello '' ''sig''"
      and msg = "\<lparr>role = ''assistant'', content = StringContent ''Hello'', tool_calls = [], tool_call_id = None\<rparr>"]
  by (simp add: conv_defs)

text \<open>
  C4 as stated fails: with a signature registered for \<open>"Hello "\<close>, an assistant turn with the
  text \<open>"Hello"\<close> for a \<open>gemini-3\<close> model emits the text \<open>"Hello "\<close>.
\<close>

theorem text_part_differs_from_content:
  "contentText_of (content
      \<lparr>role = ''assistant'', content = StringContent ''Hello'', tool_calls = [], tool_call_id = None\<rparr>) = ''Hello''
   \<and> handleAssistantMessage
     \<lparr>JSON_parse = (\<lambda>s. Some ()), JSON_stringify = (\<lambda>c. ''{}''), empty_object = ()\<rparr>
     (registerTextThoughtSignature
        \<lparr>thoughtSignatureMap = Map.empty, textThoughtSignatureMap = Map.empty\<rparr> ''Hello '' ''sig'')
     \<lparr>role = ''assistant'', content = StringContent ''Hello'', tool_calls = [], tool_call_id = None\<rparr>
     [] ''gemini-3-pro-high'' =
   [\<lparr>turn_role = ''model'', parts = [TextPart ''Hello '' (Some ''sig'')]\<rparr>]"
  by (simp add: conv_defs)

lemma functionCall_part_emitted:
  "tc \<in> set (tool_calls msg) \<Longrightarrow>
     functionCall_part rt cache tc \<in> set (parts (last (handleAssistantMessage rt cache msg out m)))"
  by (simp add: handleAssistantMessage_def Let_def)

lemma functionCall_part_signature:
  "getThoughtSignature cache (call_id tc) = Some sg \<Longrightarrow> sg \<noteq> [] \<Longrightarrow>
     \<exists>args. functionCall_part rt cache tc = FunctionCall (call_id tc) (function_name tc) args (Some sg)"
  by (simp add: functionCall_part_def)

text \<open>
  C10: for a model name that does not contain \<open>gemini-3\<close>, the converted assistant turn is
  the same for any two text-signature caches, and its text part is the extracted text with no
  signature. For every model name, a tool call whose id has a cached signature is emitted as
  a function-call part carrying that signature.
\<close>

theorem text_signature_gate:
  "(\<not> includes_str m ''gemini-3'' \<longrightarrow>
      handleAssistantMessage rt (cache\<lparr>textThoughtSignatureMap := tmA\<rparr>) msg out m =
      handleAssistantMessage rt (cache\<lparr>textThoughtSignatureMap := tmB\<rparr>) msg out m)
   \<and> (\<not> includes_str m ''gemini-3'' \<and> trim (contentText_of (content msg)) \<noteq> [] \<longrightarrow>
      handleAssistantMessage rt cache msg out m =
        out @ [\<lparr>turn_role = ''model'',
                parts = TextPart (contentText_of (content msg)) None
                          # map (functionCall_part rt cache) (tool_calls msg)\<rparr>])
   \<and> (tc \<in> set (tool_calls msg) \<and> getThoughtSignature cache (call_id tc) = Some sg \<and> sg \<noteq> [] \<longrightarrow>
      (\<exists>args. FunctionCall (call_id tc) (function_name tc) args (Some sg)
         \<in> set (parts (last (handleAssistantMessage rt cache msg out m)))))"
proof (intro conjI impI)
  assume "\<not> includes_str m ''gemini-3''"
  then show "handleAssistantMessage rt (cache\<lparr>textThoughtSignatureMap := tmA\<rparr>) msg out m =
      handleAssistantMessage rt (cache\<lparr>textThoughtSignatureMap := tmB\<rparr>) msg out m"
    by (simp add: handleAssistantMessage_def Let_def text_part_def functionCall_part_def
        getThoughtSignature_def)
next
  assume "\<not> includes_str m ''gemini-3'' \<and> trim (contentText_of (content msg)) \<noteq> []"
  then show "handleAssistantMessage rt cache msg out m =
        out @ [\<lparr>turn_role = ''model'',
                parts = TextPart (contentText_of (content msg)) None
                          # map (functionCall_part rt cache) (tool_calls msg)\<rparr>]"
    by (simp add: handleAssistantMessage_def Let_def text_part_def)
next
  assume h: "tc \<in> set (tool_calls msg) \<and> getThoughtSignature cache (call_id tc) = Some sg \<and> sg \<noteq> []"
  then obtain args where
    "functionCall_part rt cache tc = FunctionCall (call_id tc) (function_name tc) args (Some sg)"
    using functionCall_part_signature [of cache tc sg rt] by blast
  moreover from h have
    "functionCall_part rt cache tc \<in> set (parts (last (handleAssistantMessage rt cache msg out m)))"
    by (simp add: functionCall_part_emitted)
  ultimately show "\<exists>args. FunctionCall (call_id tc) (function_name tc) args (Some sg)
         \<in> set (parts (last (handleAssistantMessage rt cache msg out m)))"
    by metis
qed

theorem text_signature_gate_witness:
  "handleAssistantMessage rt0
     (cache0\<lparr>textThoughtSignatureMap := [''Hello'' \<mapsto> \<lparr>entry_signature = ''s1'', entry_text = ''Hello ''\<rparr>]\<rparr>)
     \<lparr>role = ''assistant'', content = StringContent ''Hello'',
       tool_calls = [\<lparr>call_id = ''call_1'', function_name = ''f'', function_arguments = ArgsOther\<rparr>],
       tool_call_id = None\<rparr> [] ''claude-sonnet-4-5'' =
   handleAssistantMessage rt0
     (cache0\<lparr>textThoughtSignatureMap := Map.empty\<rparr>)
     \<lparr>role = ''assistant'', content = StringContent ''Hello'',
       tool_calls = [\<lparr>call_id = ''call_1'', function_name = ''f'', function_arguments = ArgsOther\<rparr>],
       tool_call_id = None\<rparr> [] ''claude-sonnet-4-5''
   \<and> handleAssistantMessage rt0
     (registerThoughtSignature cache0 ''call_1'' ''sig1'')
     \<lparr>role = ''assistant'', content = StringContent ''Hello'',
       tool_calls = [\<lparr>call_id = ''call_1'', function_name = ''f'', function_arguments = ArgsOther\<rparr>],
       tool_call_id = None\<rparr> [] ''claude-sonnet-4-5'' =
     [\<lparr>turn_role = ''model'',
       parts = [TextPart ''Hello'' None, FunctionCall ''call_1'' ''f'' () (Some ''sig1'')]\<rparr>]"
  using text_signature_gate [where rt = rt0 and cache = cache0 and m = "''claude-sonnet-4-5''"
      and out = "[]"
      and tmA = "[''Hello'' \<mapsto> \<lparr>entry_signature = ''s1'', entry_text = ''Hello ''\<rparr>]"
      and tmB = "Map.empty"
      and msg = "\<lparr>role = ''assistant'', content = StringContent ''Hello'',
       tool_calls = [\<lparr>call_id = ''call_1'', function_name = ''f'', function_arguments = ArgsOther\<rparr>],
       tool_call_id = None\<rparr>"]
    text_signature_gate [where rt = rt0 and cache = "registerThoughtSignature cache0 ''call_1'' ''sig1''"
      and m = "''claude-sonnet-4-5''" and out = "[]" and sg = "''sig1''"
      and tc = "\<lparr>call_id = ''call_1'', function_name = ''f'', function_arguments = ArgsOther\<rparr>"
      and msg = "\<lparr>role = ''assistant'', content = StringContent ''Hello'',
       tool_calls = [\<lparr>call_id = ''call_1'', function_name = ''f'', function_arguments = ArgsOther\<rparr>],
       tool_call_id = None\<rparr>"]
  by (simp add: conv_defs)

section \<open>Schema sanitizer: the entry point\<close>

text \<open>
  \<open>cleanJsonSchema\<close> puts \<open>schema\<close> into \<open>visited\<close> and then calls \<open>cleanObject(schema)\<close>, whose
  first test on an object is \<open>visited.has(obj)\<close>: every object sanitizes to the
  circular-reference marker, whatever it holds. A primitive passes unchanged.
\<close>

lemma cleanJsonSchema_Ref:
  "cleanJsonSchema S h (Suc n) (Ref a) visited = Ok circular_marker"
  by (simp add: cleanJsonSchema_def cleanObject_body_def)

lemma cleanJsonSchema_primitive:
  "\<forall>a. x \<noteq> Ref a \<Longrightarrow> cleanJsonSchema S h n x visited = Ok (Val x)"
  by (cases x) (simp_all add: cleanJsonSchema_def)

lemma represents_marker:
  "represents h v circular_marker \<Longrightarrow> \<exists>a. v = Ref a"
  by (cases v) (simp_all add: circular_marker_def)

text \<open>
  C1: the sanitizer is idempotent. For every store, input, \<open>visited\<close> set and positive fuel
  the run returns a result \<open>y\<close>; and sanitizing \<open>y\<close> again, wherever it lies in whatever
  store, returns \<open>y\<close>.
\<close>

theorem cleanJsonSchema_idempotent:
  "\<exists>y. cleanJsonSchema S h (Suc n) x visited = Ok y \<and>
     (\<forall>h' x' m visited'. represents h' x' y \<longrightarrow>
        cleanJsonSchema S h' (Suc m) x' visited' = Ok y)"
proof (cases "\<exists>a. x = Ref a")
  case True
  then obtain a where x: "x = Ref a" ..
  have "cleanJsonSchema S h' (Suc m) x' visited' = Ok circular_marker"
    if "represents h' x' circular_marker" for h' x' m visited'
  proof -
    from that obtain a' where "x' = Ref a'"
      using represents_marker by blast
    then show ?thesis
      by (simp add: cleanJsonSchema_Ref)
  qed
  with x show ?thesis
    by (auto simp: cleanJsonSchema_Ref)
next
  case False
  then have "cleanJsonSchema S h' k x visited' = Ok (Val x)" for h' k visited'
    by (simp add: cleanJsonSchema_primitive)
  then show ?thesis
    by auto
qed

theorem cleanJsonSchema_idempotent_witness:
  "cleanJsonSchema S0
     (heap_of [HObj [(''type'', Str ''object''), (''properties'', Ref 1)],
               HObj [(''q'', Ref 2)], HObj [(''type'', Str ''string'')]])
     (Suc 0) (Ref 0) {} = Ok circular_marker
   \<and> represents
     (heap_of [HObj [(''description'', Str ''[Circular Reference]''), (''type'', Str ''object'')]])
     (Ref 0) circular_marker
   \<and> cleanJsonSchema S0
     (heap_of [HObj [(''description'', Str ''[Circular Reference]''), (''type'', Str ''object'')]])
     (Suc 0) (Ref 0) {} = Ok circular_marker"
proof -
  let ?h = "heap_of [HObj [(''type'', Str ''object''), (''properties'', Ref 1)],
               HObj [(''q'', Ref 2)], HObj [(''type'', Str ''string'')]]"
  let ?h' = "heap_of [HObj [(''description'', Str ''[Circular Reference]''), (''type'', Str ''object'')]]"
  from cleanJsonSchema_idempotent [of S0 ?h 0 "Ref 0" "{}"]
  obtain y where y: "cleanJsonSchema S0 ?h (Suc 0) (Ref 0) {} = Ok y"
    and again: "\<And>h' x' m visited'. represents h' x' y \<Longrightarrow>
        cleanJsonSchema S0 h' (Suc m) x' visited' = Ok y"
    by blast
  have "cleanJsonSchema S0 ?h (Suc 0) (Ref 0) {} = Ok circular_marker"
    by code_simp
  with y have m: "y = circular_marker" by simp
  have r: "represents ?h' (Ref 0) circular_marker"
    by code_simp
  from again [of ?h' "Ref 0" 0 "{}"] r m y show ?thesis
    by simp
qed

text \<open>
  The idempotence rests on the root's own \<open>visited\<close> test. \<open>cleanObject\<close> alone, entered
  with an empty \<open>visited\<close> set, is not idempotent: the node it returns for a \<open>$ref\<close> gains an
  empty \<open>properties\<close> when cleaned again.
\<close>

lemma cleanObject_ref_twice:
  "cleanObject S0 (heap_of [HObj [(''$ref'', Str ''#/defs/q'')]])
     (Suc (Suc 0)) {} (Ref 0) =
     Ok (Obj [(''type'', Val (Str ''object'')),
              (''description'', Val (Str ''Reference: #/defs/q''))], {0})
   \<and> cleanObject S0
     (heap_of [HObj [(''type'', Str ''object''), (''description'', Str ''Reference: #/defs/q'')]])
     (Suc (Suc 0)) {} (Ref 0) =
     Ok (Obj [(''type'', Val (Str ''object'')),
              (''description'', Val (Str ''Reference: #/defs/q'')),
              (''properties'', Obj [])], {0})"
  by code_simp

text \<open>
  C2 at \<open>{type: "object", properties: {q: {type: "string"}}}\<close>: the output is the marker, a
  node of type \<open>object\<close> with no \<open>properties\<close>. The branches of \<open>cleanObject\<close> that return
  early skip the consistency pass as well: a \<open>$ref\<close> node is an \<open>object\<close> node without
  \<open>properties\<close>, and the union of one \<open>array\<close> branch is an \<open>array\<close> node without \<open>items\<close>.
\<close>

theorem cleanJsonSchema_object_without_properties:
  "cleanJsonSchema S0
     (heap_of [HObj [(''type'', Str ''object''), (''properties'', Ref 1)],
               HObj [(''q'', Ref 2)], HObj [(''type'', Str ''string'')]])
     (Suc (Suc (Suc 0))) (Ref 0) {} =
     Ok (Obj [(''type'', Val (Str ''object'')), (''description'', Val (Str ''[Circular Reference]''))])
   \<and> cleanObject S0
     (heap_of [HObj [(''$ref'', Str ''#/defs/q'')]])
     (Suc (Suc (Suc 0))) {} (Ref 0) =
     Ok (Obj [(''type'', Val (Str ''object'')), (''description'', Val (Str ''Reference: #/defs/q''))], {0})
   \<and> cleanObject S0
     (heap_of [HObj [(''anyOf'', Ref 1)], HArr [Ref 2], HObj [(''type'', Str ''array'')]])
     (Suc (Suc (Suc 0))) {} (Ref 0) =
     Ok (Obj [(''type'', Val (Str ''array''))], {0, 2})"
  by code_simp

text \<open>
  The type resolution filters the array by \<open>VALID_TYPES\<close>, which does not hold \<open>null\<close>, before
  it asks whether \<open>null\<close> is in it: no node gets \<open>nullable\<close> from its \<open>type\<close>.
\<close>

lemma resolve_type_never_nullable:
  "resolve_type h t = Ok fs \<Longrightarrow> map_of fs ''nullable'' = None"
  by (cases "mapUnknownType t")
     (auto simp: resolve_type_def VALID_TYPES_def Let_def split: if_splits)

text \<open>
  C3 at \<open>{type: ["string", "null"]}\<close>: the sanitizer returns the marker, of type \<open>object\<close>;
  and \<open>cleanObject\<close> alone, entered with an empty \<open>visited\<close> set, returns type \<open>string\<close>
  with no \<open>nullable\<close>.
\<close>

theorem cleanJsonSchema_nullable_type_array:
  "cleanJsonSchema S0
     (heap_of [HObj [(''type'', Ref 1)], HArr [Str ''string'', Str ''null'']])
     (Suc (Suc (Suc 0))) (Ref 0) {} =
     Ok (Obj [(''type'', Val (Str ''object'')), (''description'', Val (Str ''[Circular Reference]''))])
   \<and> cleanObject S0
     (heap_of [HObj [(''type'', Ref 1)], HArr [Str ''string'', Str ''null'']])
     (Suc (Suc (Suc 0))) {} (Ref 0) =
     Ok (Obj [(''type'', Val (Str ''string''))], {0})"
  by code_simp

text \<open>
  \<open>cleanObject\<close> marks plain objects only. An array that holds itself is cleaned again and
  again: with any fuel the run needs more. From \<open>cleanJsonSchema\<close> no such call is ever
  made, since the root returns at its own \<open>visited\<close> test.
\<close>

lemma cleanObject_array_cycle:
  "h a = HArr [Ref a] \<Longrightarrow> a \<notin> visited \<Longrightarrow> cleanObject S h n visited (Ref a) = OutOfFuel"
  by (induction n) (simp_all add: cleanObject_body_def)

text \<open>
  C7 at the schema \<open>s = {type: "object", properties: {self: s}}\<close>: the sanitizer returns, but
  what it returns is the marker for \<open>s\<close> itself, with no \<open>properties\<close>; \<open>cleanObject\<close>
  alone, entered with an empty \<open>visited\<close> set, puts the marker at \<open>properties.self\<close>.
\<close>

theorem cleanJsonSchema_cycle:
  "cleanJsonSchema S0
     (heap_of [HObj [(''type'', Str ''object''), (''properties'', Ref 1)], HObj [(''self'', Ref 0)]])
     (Suc (Suc (Suc 0))) (Ref 0) {} =
     Ok (Obj [(''type'', Val (Str ''object'')), (''description'', Val (Str ''[Circular Reference]''))])
   \<and> cleanObject S0
     (heap_of [HObj [(''type'', Str ''object''), (''properties'', Ref 1)], HObj [(''self'', Ref 0)]])
     (Suc (Suc (Suc 0))) {} (Ref 0) =
     Ok (Obj [(''type'', Val (Str ''object'')),
              (''properties'',
                 Obj [(''self'',
                       Obj [(''type'', Val (Str ''object'')),
                            (''description'', Val (Str ''[Circular Reference]''))])])],
         {0})"
  by code_simp

end
